theory Spec2Isabelle
  imports Complex_Main
begin

section \<open>The private messenger bot: data model\<close>

text \<open>
  The bot of \<^verbatim>\<open>src/privmsg.js\<close> is one event handler over an in-memory map from user
  ids to interaction states. The chat platform is the environment: what the handler reads
  from it (the guild's roles and their members, the roles of the invoking member, whether
  a direct message is refused) is an input of the model, and what the handler asks of it
  (replies, edits of the preview message, direct messages, deletions, timers) is recorded
  as a list of effects, the calls issued in program order. A handler runs from its event
  to its end before the next event is taken (no other handler runs while one waits in an
  \<^verbatim>\<open>await\<close>).

  What throws in the model:
  \<^item> a read through a null reference (\<^verbatim>\<open>state.previewMessage.edit\<close> with no preview
    message), as in JavaScript;
  \<^item> \<^verbatim>\<open>member.send\<close>, inside its own try/catch, where the environment says so;
  \<^item> the builders of the library on the texts the source hands them unchecked: the label
    of a role button (\<^verbatim>\<open>setLabel(role.name)\<close>, 1 to 80 characters) and the fields of
    the report (\<^verbatim>\<open>addFields\<close>: a value of 1 to 1024 characters, at most 25 fields in
    an embed, the two limits the source's own comment on the report names);
  \<^item> \<^verbatim>\<open>editReply\<close> with a row of more than five buttons, which the platform refuses.

  Every other call to the platform is taken to return, and the descriptions of the
  embeds are taken to fit the builder's 4096 characters.
\<close>

type_synonym user_id = string
type_synonym role_id = string
type_synonym msg_id = nat
type_synonym channel_id = nat
type_synonym addr = nat

record member =
  member_id :: user_id
  member_tag :: string
  member_bot :: bool

record role =
  role_id :: role_id
  role_name :: string

text \<open>
  The guild as the handler sees it when an event arrives: the role cache, every role with
  its \<^verbatim>\<open>members\<close> collection, and the users for whom \<^verbatim>\<open>member.send\<close> raises
  (commonly because they refuse direct messages).
\<close>

record guild =
  guild_roles :: "(role \<times> member list) list"
  dm_closed :: "user_id list"

text \<open>The state object that \<^verbatim>\<open>/message\<close> stores for its author.\<close>

record session =
  currentMessage :: string
  previewMessage :: "msg_id option"
  selectedRole :: "role option"
  failedUsers :: "string list"
  successfulUsers :: "string list"

subsection \<open>What the bot shows\<close>

datatype notice =
    CommandList
  | ActiveInteraction
  | PermissionDenied
  | NoRolesFound
  | NoPermission
  | NoActiveInteraction
  | InteractionNotFound
  | ErrorProcessing

record button =
  customId :: string
  button_label :: string

text \<open>
  A field of the report embed. Its name is the heading of the sent message, or the heading
  of the users who did not receive the message, given by its suffix (empty, or
  \<^verbatim>\<open> (i/N)\<close>); its value is the text shown under the name.
\<close>

datatype field_heading =
    SentMessage
  | DidNotReceive string

record embed_field =
  field_name :: field_heading
  field_value :: string

datatype report_description =
    AllDelivered
  | PartlyDelivered nat string nat

datatype view =
    SelectRole "button list"
  | ManuallyCancelled
  | RoleNotFound
  | NoRoleSelected
  | MessagePreview string string "button list"
  | EditingMessage
  | UpdatedPreview string nat "button list"
  | InteractionCancelled
  | MessageSent report_description "embed_field list"

datatype effect =
    Reply notice
  | DeferReply
  | EditReply view
  | DeferUpdate
  | EditMessage msg_id view
  | DeleteMessage msg_id
  | ScheduleDelete msg_id nat
  | SendDM user_id string string
  | SetState user_id
  | DeleteState user_id
  | LogError
  | UnhandledRejection

section \<open>Strings\<close>

text \<open>\<^verbatim>\<open>String.prototype.split\<close> on a one-character separator: never the empty array.\<close>

fun js_split :: "char \<Rightarrow> string \<Rightarrow> string list" where
  "js_split c [] = [[]]"
| "js_split c (x # xs) =
     (if x = c then [] # js_split c xs
      else (case js_split c xs of
              [] \<Rightarrow> [[x]]
            | p # ps \<Rightarrow> (x # p) # ps))"

definition startsWith :: "string \<Rightarrow> string \<Rightarrow> bool" where
  "startsWith s p = (take (length p) s = p)"

text \<open>A number inside a template literal: its decimal digits.\<close>

fun show_nat :: "nat \<Rightarrow> string" where
  "show_nat n =
     (if n < 10 then [''0123456789'' ! n]
      else show_nat (n div 10) @ [''0123456789'' ! (n mod 10)])"

declare show_nat.simps [simp del]

section \<open>The fan-out and its report\<close>

text \<open>
  One element of \<^verbatim>\<open>selectedRole.members.map(async (member) => ...)\<close>: a bot gets no
  send and the result \<^verbatim>\<open>{ member, success: false }\<close>; any other member gets one
  \<^verbatim>\<open>member.send\<close>, whose exception is caught and gives \<^verbatim>\<open>success: false\<close>. The
  effects are the sends attempted.
\<close>

definition send_to :: "guild \<Rightarrow> string \<Rightarrow> string \<Rightarrow> member \<Rightarrow> effect list \<times> (member \<times> bool)" where
  "send_to g sender currentMsg m =
     (if member_bot m then ([], (m, False))
      else if member_id m \<in> set (dm_closed g)
        then ([SendDM (member_id m) currentMsg sender], (m, False))
        else ([SendDM (member_id m) currentMsg sender], (m, True)))"

text \<open>
  \<^verbatim>\<open>Promise.all\<close> over the mapped members: every callback runs up to its send in
  member order, and the results come back in member order.
\<close>

fun sendMessages :: "guild \<Rightarrow> string \<Rightarrow> string \<Rightarrow> member list \<Rightarrow> effect list \<times> (member \<times> bool) list" where
  "sendMessages g sender currentMsg [] = ([], [])"
| "sendMessages g sender currentMsg (m # ms) =
     (let (es, r) = send_to g sender currentMsg m;
          (es', rs) = sendMessages g sender currentMsg ms
      in (es @ es', r # rs))"

text \<open>
  The tally loop \<^verbatim>\<open>sendMessages.forEach\<close>, with its three accumulators
  \<^verbatim>\<open>successCount\<close>, \<^verbatim>\<open>failedUsers\<close> and \<^verbatim>\<open>successfulUsers\<close>.
\<close>

fun tally :: "(member \<times> bool) list \<Rightarrow> nat \<times> string list \<times> string list \<Rightarrow> nat \<times> string list \<times> string list" where
  "tally [] acc = acc"
| "tally ((m, success) # rs) (successCount, failed, successful) =
     (if success
      then tally rs (successCount + 1, failed, successful @ [member_tag m])
      else tally rs (successCount, failed @ [member_tag m], successful))"

text \<open>
  \<^verbatim>\<open>Math.ceil(arr.length / size)\<close> on naturals, and \<^verbatim>\<open>chunkArray\<close>:
  \<^verbatim>\<open>Array.from({ length: ... }, (v, i) => arr.slice(i * size, i * size + size))\<close>.
\<close>

definition ceil_div :: "nat \<Rightarrow> nat \<Rightarrow> nat" where
  "ceil_div n sz = (n + sz - 1) div sz"

definition chunkArray :: "'a list \<Rightarrow> nat \<Rightarrow> 'a list list" where
  "chunkArray arr sz =
     map (\<lambda>i. take sz (drop (i * sz) arr)) [0 ..< ceil_div (length arr) sz]"

definition usersPerField :: nat where
  "usersPerField = 25"

text \<open>
  The name of the field of chunk \<open>index\<close>: numbered \<^verbatim>\<open>(index + 1/length)\<close> when there
  is more than one chunk.
\<close>

definition fieldName :: "nat \<Rightarrow> nat \<Rightarrow> string" where
  "fieldName n_chunks index =
     (if n_chunks > 1 then '' ('' @ show_nat (index + 1) @ ''/'' @ show_nat n_chunks @ '')''
      else [])"

text \<open>
  \<^verbatim>\<open>Array.prototype.join\<close>, and the value of a chunk's field:
  \<^verbatim>\<open>chunk.map(user => `* ${user}`).join('\n')\<close>, where \<open>*\<close> stands for the bullet of
  the source, one character like it.
\<close>

fun js_join :: "string \<Rightarrow> string list \<Rightarrow> string" where
  "js_join sep [] = []"
| "js_join sep [x] = x"
| "js_join sep (x # y # ys) = x @ sep @ js_join sep (y # ys)"

definition userLines :: "string list \<Rightarrow> string" where
  "userLines chunk = js_join [CHR 0x0A] (map (\<lambda>user. ''* '' @ user) chunk)"

text \<open>
  The limits of the library: \<^verbatim>\<open>ButtonBuilder.setLabel\<close> takes 1 to 80 characters, an
  action row holds five buttons, \<^verbatim>\<open>EmbedBuilder.addFields\<close> takes a value of 1 to 1024
  characters and an embed holds 25 fields.
\<close>

definition maxLabel :: nat where
  "maxLabel = 80"

definition maxRowButtons :: nat where
  "maxRowButtons = 5"

definition maxFieldValue :: nat where
  "maxFieldValue = 1024"

definition maxFields :: nat where
  "maxFields = 25"

text \<open>
  \<^verbatim>\<open>embed.addFields(field)\<close> on an embed that has the fields \<open>fs\<close>: the new list of
  fields, or \<open>None\<close> where the builder throws. The builder checks the number of fields
  and the length of the value; it also wants a name of 1 to 256 characters, which the
  two headings of the source, with their suffix, are.
\<close>

definition addFields :: "embed_field \<Rightarrow> embed_field list \<Rightarrow> embed_field list option" where
  "addFields f fs =
     (if length fs + 1 \<le> maxFields
         \<and> 1 \<le> length (field_value f) \<and> length (field_value f) \<le> maxFieldValue
      then Some (fs @ [f])
      else None)"

text \<open>
  \<^verbatim>\<open>failedUserChunks.forEach((chunk, index) => { ... resultEmbed.addFields(...) })\<close>:
  one \<^verbatim>\<open>addFields\<close> per chunk, in order; the first that throws ends the loop.
\<close>

fun addFailedFields :: "nat \<Rightarrow> (nat \<times> string list) list \<Rightarrow> embed_field list \<Rightarrow> embed_field list option" where
  "addFailedFields n_chunks [] fs = Some fs"
| "addFailedFields n_chunks ((index, chunk) # rest) fs =
     (case addFields \<lparr>field_name = DidNotReceive (fieldName n_chunks index),
                       field_value = userLines chunk\<rparr> fs of
        None \<Rightarrow> None
      | Some fs' \<Rightarrow> addFailedFields n_chunks rest fs')"

text \<open>
  The report embed of lines 498 to 536: the field of the sent message is added first, then
  the fields of the failed users. \<open>None\<close> where a builder throws and no report exists.
\<close>

definition resultEmbed :: "string \<Rightarrow> string \<Rightarrow> nat \<Rightarrow> string list \<Rightarrow> view option" where
  "resultEmbed roleName currentMsg successCount failed =
     (let description =
            (if length failed > 0 then PartlyDelivered successCount roleName (length failed)
             else AllDelivered)
      in case addFields \<lparr>field_name = SentMessage, field_value = currentMsg\<rparr> [] of
           None \<Rightarrow> None
         | Some fs \<Rightarrow>
             (if length failed > 0
              then (let failedUserChunks = chunkArray failed usersPerField
                    in case addFailedFields (length failedUserChunks)
                              (enumerate 0 failedUserChunks) fs of
                         None \<Rightarrow> None
                       | Some fs' \<Rightarrow> Some (MessageSent description fs'))
              else Some (MessageSent description fs)))"

section \<open>The interaction manager\<close>

text \<open>
  A state object is shared by reference: the \<^verbatim>\<open>Map\<close> of the interaction manager, the
  handler's local \<^verbatim>\<open>state\<close> and the closure of a message collector all point at the
  same object, and an object removed from the map lives on in a collector that captured
  it. So the objects live in a heap, the map holds addresses, and a collector holds the
  address it captured. A collector is the pending \<^verbatim>\<open>createMessageCollector\<close> of the
  edit step: its channel, the author its filter accepts, the captured state.
\<close>

record collector =
  col_channel :: channel_id
  col_author :: user_id
  col_state :: addr

record world =
  interactionState :: "user_id \<rightharpoonup> addr"
  heap :: "addr \<Rightarrow> session"
  next_addr :: addr
  collectors :: "collector list"

definition hasState :: "world \<Rightarrow> user_id \<Rightarrow> bool" where
  "hasState w userId = (interactionState w userId \<noteq> None)"

definition getState :: "world \<Rightarrow> user_id \<Rightarrow> addr option" where
  "getState w userId = interactionState w userId"

text \<open>\<^verbatim>\<open>setState(userId, { ... })\<close>: the object literal is a new object.\<close>

definition setState :: "user_id \<Rightarrow> session \<Rightarrow> world \<Rightarrow> world" where
  "setState userId s w =
     w\<lparr>interactionState := (interactionState w)(userId \<mapsto> next_addr w),
       heap := (heap w)(next_addr w := s),
       next_addr := next_addr w + 1\<rparr>"

definition deleteState :: "user_id \<Rightarrow> world \<Rightarrow> world" where
  "deleteState userId w = w\<lparr>interactionState := (interactionState w)(userId := None)\<rparr>"

definition update_state :: "addr \<Rightarrow> (session \<Rightarrow> session) \<Rightarrow> world \<Rightarrow> world" where
  "update_state a f w = w\<lparr>heap := (heap w)(a := f (heap w a))\<rparr>"

section \<open>Events\<close>

text \<open>
  An interaction: the user, the roles of the invoking member, the member's display name,
  the channel, the id of the message that a reply to the interaction creates, and
  either a slash command (its name and its \<^verbatim>\<open>content\<close> option) or a button press (the
  button's custom id).
\<close>

datatype interaction_kind =
    Command string string
  | ButtonPress string

record interaction =
  i_user :: user_id
  i_roles :: "role_id list"
  i_displayName :: string
  i_channel :: channel_id
  i_reply :: msg_id
  i_kind :: interaction_kind

record message =
  msg_id :: msg_id
  msg_author :: user_id
  msg_channel :: channel_id
  msg_content :: string

text \<open>
  How a handler leaves: it falls through to the statements after it, it returns, or it
  throws into the \<^verbatim>\<open>catch\<close> of \<^verbatim>\<open>interactionCreate\<close>.
\<close>

datatype flow =
    Continue world "effect list"
  | Return world "effect list"
  | Throw world "effect list"

fun andThen :: "flow \<Rightarrow> (world \<Rightarrow> flow) \<Rightarrow> flow" where
  "andThen (Continue w es) k =
     (case k w of
        Continue w' es' \<Rightarrow> Continue w' (es @ es')
      | Return w' es' \<Rightarrow> Return w' (es @ es')
      | Throw w' es' \<Rightarrow> Throw w' (es @ es'))"
| "andThen (Return w es) k = Return w es"
| "andThen (Throw w es) k = Throw w es"

text \<open>\<^verbatim>\<open>role.members\<close> and \<^verbatim>\<open>guild.roles.fetch(roleId)\<close>, read from the guild.\<close>

definition members_of :: "guild \<Rightarrow> role \<Rightarrow> member list" where
  "members_of g r =
     (case find (\<lambda>(r', ms). role_id r' = role_id r) (guild_roles g) of
        None \<Rightarrow> []
      | Some (r', ms) \<Rightarrow> ms)"

definition fetch_role :: "guild \<Rightarrow> role_id \<Rightarrow> role option" where
  "fetch_role g roleId = map_option fst (find (\<lambda>(r, ms). role_id r = roleId) (guild_roles g))"

text \<open>The three buttons of the preview (labels without their emoji).\<close>

definition previewButtons :: "user_id \<Rightarrow> nat \<Rightarrow> button list" where
  "previewButtons authorId n =
     [\<lparr>customId = ''confirm_send_'' @ authorId,
        button_label = ''Confirm Send ('' @ show_nat n @ '' members)''\<rparr>,
      \<lparr>customId = ''edit_message_'' @ authorId, button_label = ''Edit Message''\<rparr>,
      \<lparr>customId = ''cancel_send_'' @ authorId, button_label = ''Cancel''\<rparr>]"

section \<open>The command handlers\<close>

text \<open>
  \<^verbatim>\<open>/message\<close>. The session is stored before the role buttons are built; a role name
  that \<^verbatim>\<open>setLabel\<close> refuses throws before \<^verbatim>\<open>deferReply\<close>, and a row of more than
  five buttons makes \<^verbatim>\<open>editReply\<close> throw after it. Either way the session stays
  stored, with no preview message.
\<close>

definition message_command :: "role_id \<Rightarrow> guild \<Rightarrow> interaction \<Rightarrow> string \<Rightarrow> world \<Rightarrow> flow" where
  "message_command supportRole g i content w =
     (let authorId = i_user i in
      if hasState w authorId then Return w [Reply ActiveInteraction]
      else if supportRole \<notin> set (i_roles i) then Return w [Reply PermissionDenied]
      else
        let w1 = setState authorId
                   \<lparr>currentMessage = content, previewMessage = None, selectedRole = None,
                    failedUsers = [], successfulUsers = []\<rparr> w;
            roles = filter (\<lambda>(r, ms). length ms \<ge> 2) (guild_roles g)
        in if length roles = 0
           then Return (deleteState authorId w1)
                  [SetState authorId, Reply NoRolesFound, DeleteState authorId]
           else
             let buttons = map (\<lambda>(r, ms).
                                  \<lparr>customId = ''select_role_'' @ role_id r @ ''_'' @ authorId,
                                   button_label = role_name r\<rparr>) roles;
                 es = [SetState authorId, DeferReply, EditReply (SelectRole buttons)]
             in if \<not> list_all (\<lambda>b. 1 \<le> length (button_label b)
                                      \<and> length (button_label b) \<le> maxLabel) buttons
                then Throw w1 [SetState authorId]
                else if length buttons > maxRowButtons
                then Throw w1 [SetState authorId, DeferReply]
                else
                  (case getState w1 authorId of
                     None \<Rightarrow> Throw w1 es
                   | Some a \<Rightarrow>
                       Continue (update_state a (\<lambda>s. s\<lparr>previewMessage := Some (i_reply i)\<rparr>) w1)
                         es))"

definition cancel_command :: "role_id \<Rightarrow> interaction \<Rightarrow> world \<Rightarrow> flow" where
  "cancel_command supportRole i w =
     (let authorId = i_user i in
      if supportRole \<notin> set (i_roles i)
      then Return w [Reply NoPermission, ScheduleDelete (i_reply i) 10000]
      else if \<not> hasState w authorId then Return w [Reply NoActiveInteraction]
      else
        (case getState w authorId of
           None \<Rightarrow> Throw w []
         | Some a \<Rightarrow>
             let es = (case previewMessage (heap w a) of
                         Some p \<Rightarrow> [EditMessage p ManuallyCancelled, ScheduleDelete p 15000]
                       | None \<Rightarrow> [])
             in Continue (deleteState authorId w)
                  (es @ [DeleteState authorId, DeferReply, EditReply InteractionCancelled,
                         ScheduleDelete (i_reply i) 15000])))"

section \<open>The button handlers\<close>

definition select_role :: "guild \<Rightarrow> interaction \<Rightarrow> string \<Rightarrow> addr \<Rightarrow> world \<Rightarrow> flow" where
  "select_role g i cid a w =
     (let authorId = i_user i;
          roleId = js_split CHR ''_'' cid ! 2
      in case fetch_role g roleId of
           None \<Rightarrow>
             (case previewMessage (heap w a) of
                None \<Rightarrow> Throw w []
              | Some p \<Rightarrow>
                  Return (deleteState authorId w) [EditMessage p RoleNotFound, DeleteState authorId])
         | Some r \<Rightarrow>
             let w1 = update_state a (\<lambda>s. s\<lparr>selectedRole := Some r\<rparr>) w;
                 n = length (members_of g r)
             in (case previewMessage (heap w1 a) of
                   None \<Rightarrow> Throw w1 [DeferUpdate]
                 | Some p \<Rightarrow>
                     Continue w1
                       [DeferUpdate,
                        EditMessage p (MessagePreview (role_name r) (currentMessage (heap w1 a))
                                         (previewButtons authorId n))]))"

text \<open>
  The confirm button. The report is built after the direct messages went out and the
  tally was stored in the state; a throw of its builders leaves through the
  \<^verbatim>\<open>catch\<close>, before the preview is edited and before \<^verbatim>\<open>deleteState\<close>.
\<close>

definition confirm_send :: "guild \<Rightarrow> interaction \<Rightarrow> addr \<Rightarrow> world \<Rightarrow> flow" where
  "confirm_send g i a w =
     (let authorId = i_user i;
          currentMsg = currentMessage (heap w a)
      in case selectedRole (heap w a) of
           None \<Rightarrow>
             (case previewMessage (heap w a) of
                None \<Rightarrow> Throw w [DeferUpdate]
              | Some p \<Rightarrow>
                  Return (deleteState authorId w)
                    [DeferUpdate, EditMessage p NoRoleSelected, DeleteState authorId])
         | Some r \<Rightarrow>
             let (sends, results) = sendMessages g (i_displayName i) currentMsg (members_of g r);
                 (successCount, failed, successful) = tally results (0, [], []);
                 w1 = update_state a (\<lambda>s. s\<lparr>failedUsers := failed, successfulUsers := successful\<rparr>) w
             in (case resultEmbed (role_name r) currentMsg successCount failed of
                   None \<Rightarrow> Throw w1 (DeferUpdate # sends)
                 | Some report \<Rightarrow>
                     (case previewMessage (heap w1 a) of
                        None \<Rightarrow> Throw w1 (DeferUpdate # sends)
                      | Some p \<Rightarrow>
                          Continue (deleteState authorId w1)
                            (DeferUpdate # sends @
                             [EditMessage p report, DeleteState authorId]))))"

definition edit_message :: "interaction \<Rightarrow> addr \<Rightarrow> world \<Rightarrow> flow" where
  "edit_message i a w =
     (case previewMessage (heap w a) of
        None \<Rightarrow> Throw w [DeferUpdate]
      | Some p \<Rightarrow>
          Continue
            (w\<lparr>collectors := collectors w @
                 [\<lparr>col_channel = i_channel i, col_author = i_user i, col_state = a\<rparr>]\<rparr>)
            [DeferUpdate, EditMessage p EditingMessage])"

definition cancel_send :: "interaction \<Rightarrow> addr \<Rightarrow> world \<Rightarrow> flow" where
  "cancel_send i a w =
     (let authorId = i_user i;
          w1 = deleteState authorId w
      in case previewMessage (heap w1 a) of
           None \<Rightarrow> Throw w1 [DeferUpdate, DeleteState authorId]
         | Some p \<Rightarrow>
             Continue w1
               [DeferUpdate, DeleteState authorId, EditMessage p InteractionCancelled,
                ScheduleDelete p 15000])"

definition button_handler :: "guild \<Rightarrow> interaction \<Rightarrow> string \<Rightarrow> world \<Rightarrow> flow" where
  "button_handler g i cid w =
     (let authorId = i_user i;
          authorIdFromCustomId = last (js_split CHR ''_'' cid)
      in if authorId \<noteq> authorIdFromCustomId then Return w []
         else
           (case getState w authorId of
              None \<Rightarrow> Return w [Reply InteractionNotFound]
            | Some a \<Rightarrow>
                andThen (if startsWith cid ''select_role_'' then select_role g i cid a w
                         else Continue w [])
                  (\<lambda>w. andThen (if startsWith cid ''confirm_send_'' then confirm_send g i a w
                                 else Continue w [])
                     (\<lambda>w. andThen (if startsWith cid ''edit_message_'' then edit_message i a w
                                    else Continue w [])
                        (\<lambda>w. if startsWith cid ''cancel_send_'' then cancel_send i a w
                              else Continue w [])))))"

section \<open>The interaction handler\<close>

fun isCommand :: "interaction_kind \<Rightarrow> string \<Rightarrow> bool" where
  "isCommand (Command name content) n = (name = n)"
| "isCommand (ButtonPress cid) n = False"

fun option_content :: "interaction_kind \<Rightarrow> string" where
  "option_content (Command name content) = content"
| "option_content (ButtonPress cid) = []"

definition handler_body :: "role_id \<Rightarrow> guild \<Rightarrow> interaction \<Rightarrow> world \<Rightarrow> flow" where
  "handler_body supportRole g i w =
     andThen (if isCommand (i_kind i) ''help'' then Return w [Reply CommandList]
              else Continue w [])
       (\<lambda>w. andThen (if isCommand (i_kind i) ''message''
                      then message_command supportRole g i (option_content (i_kind i)) w
                      else Continue w [])
          (\<lambda>w. andThen (if isCommand (i_kind i) ''cancel'' then cancel_command supportRole i w
                         else Continue w [])
             (\<lambda>w. case i_kind i of
                     ButtonPress cid \<Rightarrow> button_handler g i cid w
                   | Command name content \<Rightarrow> Continue w [])))"

text \<open>\<^verbatim>\<open>interaction.deferred || interaction.replied\<close>, read off the effects so far.\<close>

fun acknowledges :: "effect \<Rightarrow> bool" where
  "acknowledges (Reply n) = True"
| "acknowledges DeferReply = True"
| "acknowledges DeferUpdate = True"
| "acknowledges e = False"

definition interactionCreate :: "role_id \<Rightarrow> guild \<Rightarrow> interaction \<Rightarrow> world \<Rightarrow> world \<times> effect list" where
  "interactionCreate supportRole g i w =
     (case handler_body supportRole g i w of
        Continue w' es \<Rightarrow> (w', es)
      | Return w' es \<Rightarrow> (w', es)
      | Throw w' es \<Rightarrow>
          (w', es @ LogError #
                 (if \<not> list_ex acknowledges es
                  then [Reply ErrorProcessing, ScheduleDelete (i_reply i) 15000]
                  else [])))"

section \<open>The message collector\<close>

text \<open>
  The \<^verbatim>\<open>collect\<close> callback of the edit step, run on the state the collector captured. It
  is outside every try/catch: a throw in it is an unhandled rejection.
\<close>

definition collect :: "guild \<Rightarrow> message \<Rightarrow> collector \<Rightarrow> world \<Rightarrow> world \<times> effect list" where
  "collect g msg c w =
     (let a = col_state c;
          authorId = col_author c;
          w1 = update_state a (\<lambda>s. s\<lparr>currentMessage := msg_content msg\<rparr>) w
      in case selectedRole (heap w1 a) of
           None \<Rightarrow> (w1, [UnhandledRejection])
         | Some r \<Rightarrow>
             let n = length (members_of g r)
             in (case previewMessage (heap w1 a) of
                   None \<Rightarrow> (w1, [DeleteMessage (msg_id msg), UnhandledRejection])
                 | Some p \<Rightarrow>
                     (w1, [DeleteMessage (msg_id msg),
                           EditMessage p (UpdatedPreview (msg_content msg) n
                                            (previewButtons authorId n))])))"

definition col_matches :: "message \<Rightarrow> collector \<Rightarrow> bool" where
  "col_matches msg c = (col_channel c = msg_channel msg \<and> col_author c = msg_author msg)"

fun run_collectors :: "guild \<Rightarrow> message \<Rightarrow> collector list \<Rightarrow> world \<Rightarrow> world \<times> effect list" where
  "run_collectors g msg [] w = (w, [])"
| "run_collectors g msg (c # cs) w =
     (let (w1, es1) = collect g msg c w;
          (w2, es2) = run_collectors g msg cs w1
      in (w2, es1 @ es2))"

text \<open>
  A message arrives in a channel: every pending collector of that channel whose filter
  accepts the author collects it and, with \<^verbatim>\<open>max: 1\<close>, ends; the others stay pending.
\<close>

definition messageCreate :: "guild \<Rightarrow> message \<Rightarrow> world \<Rightarrow> world \<times> effect list" where
  "messageCreate g msg w =
     run_collectors g msg (filter (col_matches msg) (collectors w))
       (w\<lparr>collectors := filter (\<lambda>c. \<not> col_matches msg c) (collectors w)\<rparr>)"

section \<open>Example inputs\<close>

text \<open>
  A guild with a role \<open>staff\<close> of three members (a bot, a member who accepts direct
  messages and one who refuses them) and a role of one member; an operator \<open>7\<close> holding
  the support role \<open>900\<close>; the worlds the operator reaches from the empty store.
\<close>

abbreviation (input) m1 :: member where
  "m1 \<equiv> \<lparr>member_id = ''1'', member_tag = ''m1'', member_bot = True\<rparr>"

abbreviation (input) m2 :: member where
  "m2 \<equiv> \<lparr>member_id = ''2'', member_tag = ''m2'', member_bot = False\<rparr>"

abbreviation (input) m3 :: member where
  "m3 \<equiv> \<lparr>member_id = ''3'', member_tag = ''m3'', member_bot = False\<rparr>"

abbreviation (input) staff :: role where
  "staff \<equiv> \<lparr>role_id = ''500'', role_name = ''staff''\<rparr>"

abbreviation (input) solo :: role where
  "solo \<equiv> \<lparr>role_id = ''501'', role_name = ''solo''\<rparr>"

abbreviation (input) ex_guild :: guild where
  "ex_guild \<equiv> \<lparr>guild_roles = [(staff, [m1, m2, m3]), (solo, [m2])], dm_closed = [''3'']\<rparr>"

abbreviation (input) small_guild :: guild where
  "small_guild \<equiv> \<lparr>guild_roles = [(solo, [m2])], dm_closed = []\<rparr>"

abbreviation (input) by_operator :: "msg_id \<Rightarrow> interaction_kind \<Rightarrow> interaction" where
  "by_operator r k \<equiv>
     \<lparr>i_user = ''7'', i_roles = [''900''], i_displayName = ''op'', i_channel = 10,
      i_reply = r, i_kind = k\<rparr>"

abbreviation (input) by_stranger :: "msg_id \<Rightarrow> interaction_kind \<Rightarrow> interaction" where
  "by_stranger r k \<equiv>
     \<lparr>i_user = ''8'', i_roles = [], i_displayName = ''other'', i_channel = 10,
      i_reply = r, i_kind = k\<rparr>"

abbreviation (input) no_session :: session where
  "no_session \<equiv>
     \<lparr>currentMessage = [], previewMessage = None, selectedRole = None,
      failedUsers = [], successfulUsers = []\<rparr>"

abbreviation (input) empty_world :: world where
  "empty_world \<equiv>
     \<lparr>interactionState = Map.empty, heap = (\<lambda>a. no_session), next_addr = 0, collectors = []\<rparr>"

text \<open>After \<^verbatim>\<open>/message content:hello\<close>: the role buttons are shown.\<close>

abbreviation (input) selecting_world :: world where
  "selecting_world \<equiv>
     fst (interactionCreate ''900'' ex_guild (by_operator 40 (Command ''message'' ''hello''))
            empty_world)"

text \<open>After the press of the \<open>staff\<close> button: the preview with its three buttons.\<close>

abbreviation (input) preview_world :: world where
  "preview_world \<equiv>
     fst (interactionCreate ''900'' ex_guild (by_operator 41 (ButtonPress ''select_role_500_7''))
            selecting_world)"

text \<open>After the press of the edit button: a collector waits for the operator.\<close>

abbreviation (input) editing_world :: world where
  "editing_world \<equiv>
     fst (interactionCreate ''900'' ex_guild (by_operator 42 (ButtonPress ''edit_message_7''))
            preview_world)"

text \<open>
  A draft of 1025 characters, and the preview the operator reaches with it.
\<close>

abbreviation (input) long_draft :: string where
  "long_draft \<equiv> replicate 1025 CHR ''a''"

abbreviation (input) long_preview_world :: world where
  "long_preview_world \<equiv>
     fst (interactionCreate ''900'' ex_guild (by_operator 41 (ButtonPress ''select_role_500_7''))
            (fst (interactionCreate ''900'' ex_guild
                    (by_operator 40 (Command ''message'' long_draft)) empty_world)))"

text \<open>
  A guild whose role \<open>quiet\<close> has 601 members, all of whom refuse direct messages, and
  the preview the operator reaches there.
\<close>

abbreviation (input) quiet_member :: "nat \<Rightarrow> member" where
  "quiet_member n \<equiv>
     \<lparr>member_id = show_nat n, member_tag = ''user'' @ show_nat n, member_bot = False\<rparr>"

abbreviation (input) quiet :: role where
  "quiet \<equiv> \<lparr>role_id = ''601'', role_name = ''quiet''\<rparr>"

abbreviation (input) quiet_guild :: guild where
  "quiet_guild \<equiv>
     \<lparr>guild_roles = [(quiet, map quiet_member [0 ..< 601])],
      dm_closed = map show_nat [0 ..< 601]\<rparr>"

abbreviation (input) quiet_preview_world :: world where
  "quiet_preview_world \<equiv>
     fst (interactionCreate ''900'' quiet_guild (by_operator 41 (ButtonPress ''select_role_601_7''))
            (fst (interactionCreate ''900'' quiet_guild
                    (by_operator 40 (Command ''message'' ''hello'')) empty_world)))"


section \<open>Lemmas on strings and chunks\<close>

lemma js_split_not_Nil: "js_split c s \<noteq> []"
  by (induction s) (auto split: list.splits)

lemma js_split_no_sep: "c \<notin> set s \<Longrightarrow> js_split c s = [s]"
  by (induction s) auto

lemma js_split_append_sep:
  "c \<notin> set xs \<Longrightarrow> js_split c (xs @ c # ys) = xs # js_split c ys"
  by (induction xs) auto

lemma js_split_sep_length: "2 \<le> length (js_split c (xs @ c # ys))"
proof (induction xs)
  case Nil
  then show ?case using js_split_not_Nil [of c ys] by (cases "js_split c ys") auto
next
  case (Cons x xs)
  then show ?case by (cases "js_split c (xs @ c # ys)") auto
qed

lemma last_js_split_sep: "last (js_split c (xs @ c # ys)) = last (js_split c ys)"
proof (induction xs)
  case Nil
  then show ?case by (simp add: js_split_not_Nil)
next
  case (Cons x xs)
  obtain p q ps where "js_split c (xs @ c # ys) = p # q # ps"
    using js_split_sep_length [of c xs ys]
    by (cases "js_split c (xs @ c # ys)"; cases "tl (js_split c (xs @ c # ys))") auto
  with Cons show ?case by auto
qed

text \<open>The last segment of a custom id that ends in \<open>_\<close> and an id free of \<open>_\<close> is that id.\<close>

lemma last_js_split_owner:
  "c \<notin> set ys \<Longrightarrow> last (js_split c (xs @ c # ys)) = ys"
  by (simp add: last_js_split_sep js_split_no_sep)

lemma startsWith_rest: "startsWith s p \<Longrightarrow> \<exists>rest. s = p @ rest"
  unfolding startsWith_def by (metis append_take_drop_id)

text \<open>
  In the role branch \<^verbatim>\<open>split('_')[2]\<close> reads inside the array: the index 2 of
  \<open>select_role\<close> is always in range.
\<close>

lemma select_role_index:
  assumes "startsWith cid ''select_role_''"
  shows "2 < length (js_split CHR ''_'' cid)"
proof -
  obtain rest where "cid = ''select_role_'' @ rest"
    using startsWith_rest [OF assms] ..
  then show ?thesis
    using js_split_not_Nil [of "CHR ''_''" rest]
    by (cases "js_split CHR ''_'' rest") simp_all
qed

lemma ceil_div_bounds:
  assumes "0 < sz"
  shows "n \<le> ceil_div n sz * sz" and "ceil_div n sz * sz < n + sz"
proof -
  define q where "q = (n + sz - 1) div sz"
  have eq: "n + sz - 1 = q * sz + (n + sz - 1) mod sz"
    by (simp add: q_def)
  have r: "(n + sz - 1) mod sz < sz"
    using assms by simp
  show "n \<le> ceil_div n sz * sz"
    using eq r assms unfolding ceil_div_def q_def by linarith
  show "ceil_div n sz * sz < n + sz"
    using eq assms unfolding ceil_div_def q_def by linarith
qed

text \<open>\<open>ceil_div\<close> is \<^verbatim>\<open>Math.ceil\<close> of the quotient of the reals.\<close>

lemma ceil_div_ceiling:
  assumes "0 < sz"
  shows "ceil_div n sz = nat \<lceil>real n / real sz\<rceil>"
proof -
  let ?q = "ceil_div n sz"
  have pos: "0 < real sz" using assms by simp
  have "real n \<le> real (?q * sz)"
    using ceil_div_bounds(1) [OF assms, of n] by (simp only: of_nat_le_iff)
  then have up: "real n / real sz \<le> real ?q"
    using pos by (simp add: pos_divide_le_eq)
  have "real (?q * sz) < real (n + sz)"
    using ceil_div_bounds(2) [OF assms, of n] by (simp only: of_nat_less_iff)
  then have "(real ?q - 1) * real sz < real n"
    by (simp add: algebra_simps)
  then have lo: "real ?q - 1 < real n / real sz"
    using pos by (simp add: pos_less_divide_eq)
  have "\<lceil>real n / real sz\<rceil> = int ?q"
    by (rule ceiling_unique) (use lo up in simp_all)
  then show ?thesis by simp
qed

lemma length_chunkArray: "length (chunkArray xs sz) = ceil_div (length xs) sz"
  by (simp add: chunkArray_def)

lemma chunk_length_le: "c \<in> set (chunkArray xs sz) \<Longrightarrow> length c \<le> sz"
  by (auto simp: chunkArray_def)

lemma concat_chunks_take:
  "concat (map (\<lambda>i. take sz (drop (i * sz) xs)) [0 ..< k]) = take (k * sz) xs"
proof (induction k)
  case 0
  then show ?case by simp
next
  case (Suc k)
  have "Suc k * sz = k * sz + sz" by simp
  then have "take (Suc k * sz) xs = take (k * sz) xs @ take sz (drop (k * sz) xs)"
    by (simp only: take_add)
  with Suc show ?case by simp
qed

lemma concat_chunkArray: "0 < sz \<Longrightarrow> concat (chunkArray xs sz) = xs"
  using ceil_div_bounds(1) [of sz "length xs"]
  by (simp add: chunkArray_def concat_chunks_take)

section \<open>What each handler does\<close>

text \<open>
  The custom ids end in the id of the operator they were built for; user and role ids are
  decimal strings, so they hold no \<open>_\<close>, which is the hypothesis on ids below.
\<close>

lemmas run_defs =
  interactionCreate_def handler_body_def button_handler_def message_command_def
  cancel_command_def select_role_def confirm_send_def edit_message_def cancel_send_def
  hasState_def getState_def setState_def deleteState_def update_state_def
  startsWith_def fetch_role_def members_of_def maxLabel_def maxRowButtons_def Let_def

lemma message_active_run:
  assumes "interactionState w (i_user i) = Some a"
    and "i_kind i = Command ''message'' content"
  shows "interactionCreate supportRole g i w = (w, [Reply ActiveInteraction])"
  using assms by (simp add: run_defs)

lemma foreign_button_run:
  assumes "CHR ''_'' \<notin> set A" and "i_user i \<noteq> A"
    and "i_kind i = ButtonPress (pre @ ''_'' @ A)"
  shows "interactionCreate supportRole g i w = (w, [])"
  using assms by (simp add: run_defs last_js_split_owner)

lemma no_roles_run:
  assumes "interactionState w (i_user i) = None"
    and "supportRole \<in> set (i_roles i)"
    and "i_kind i = Command ''message'' content"
    and "filter (\<lambda>(r, ms). length ms \<ge> 2) (guild_roles g) = []"
  shows "interactionCreate supportRole g i w =
           (deleteState (i_user i)
              (setState (i_user i)
                 \<lparr>currentMessage = content, previewMessage = None, selectedRole = None,
                  failedUsers = [], successfulUsers = []\<rparr> w),
            [SetState (i_user i), Reply NoRolesFound, DeleteState (i_user i)])"
  using assms by (simp add: interactionCreate_def handler_body_def message_command_def hasState_def Let_def)

lemma cancel_command_run:
  assumes "interactionState w (i_user i) = Some a"
    and "supportRole \<in> set (i_roles i)"
    and "i_kind i = Command ''cancel'' content"
  shows "interactionCreate supportRole g i w =
           (deleteState (i_user i) w,
            (case previewMessage (heap w a) of
               Some p \<Rightarrow> [EditMessage p ManuallyCancelled, ScheduleDelete p 15000]
             | None \<Rightarrow> []) @
            [DeleteState (i_user i), DeferReply, EditReply InteractionCancelled,
             ScheduleDelete (i_reply i) 15000])"
  using assms by (simp add: interactionCreate_def handler_body_def cancel_command_def hasState_def getState_def Let_def)

lemma cancel_command_idle:
  assumes "interactionState w (i_user i) = None"
    and "supportRole \<in> set (i_roles i)"
    and "i_kind i = Command ''cancel'' content"
  shows "interactionCreate supportRole g i w = (w, [Reply NoActiveInteraction])"
  using assms by (simp add: interactionCreate_def handler_body_def cancel_command_def hasState_def getState_def Let_def)

lemma own_button_idle:
  assumes "interactionState w (i_user i) = None"
    and "CHR ''_'' \<notin> set (i_user i)"
    and "i_kind i = ButtonPress (pre @ ''_'' @ i_user i)"
  shows "interactionCreate supportRole g i w = (w, [Reply InteractionNotFound])"
  using assms by (simp add: interactionCreate_def handler_body_def button_handler_def getState_def Let_def last_js_split_owner)

lemma cancel_button_run:
  assumes "interactionState w (i_user i) = Some a"
    and "CHR ''_'' \<notin> set (i_user i)"
    and "i_kind i = ButtonPress (''cancel_send_'' @ i_user i)"
  shows "interactionCreate supportRole g i w =
           (deleteState (i_user i) w,
            (case previewMessage (heap w a) of
               Some p \<Rightarrow> [DeferUpdate, DeleteState (i_user i), EditMessage p InteractionCancelled,
                          ScheduleDelete p 15000]
             | None \<Rightarrow> [DeferUpdate, DeleteState (i_user i), LogError]))"
  using assms
  by (simp add: interactionCreate_def handler_body_def button_handler_def getState_def Let_def
      js_split_no_sep startsWith_def cancel_send_def deleteState_def split: option.splits)

lemma confirm_no_role_run:
  assumes "interactionState w (i_user i) = Some a"
    and "selectedRole (heap w a) = None"
    and "previewMessage (heap w a) = Some p"
    and "CHR ''_'' \<notin> set (i_user i)"
    and "i_kind i = ButtonPress (''confirm_send_'' @ i_user i)"
  shows "interactionCreate supportRole g i w =
           (deleteState (i_user i) w,
            [DeferUpdate, EditMessage p NoRoleSelected, DeleteState (i_user i)])"
  using assms
  by (simp add: interactionCreate_def handler_body_def button_handler_def getState_def Let_def
      js_split_no_sep startsWith_def confirm_send_def)

text \<open>
  Confirm with a role selected: where the report is built the preview shows it and the
  session is deleted; where a builder of the report throws, the direct messages are out,
  the error is logged, and the session stays in the store.
\<close>

lemma confirm_role_run:
  assumes "interactionState w (i_user i) = Some a"
    and "selectedRole (heap w a) = Some r"
    and "previewMessage (heap w a) = Some p"
    and "CHR ''_'' \<notin> set (i_user i)"
    and "i_kind i = ButtonPress (''confirm_send_'' @ i_user i)"
  shows "interactionCreate supportRole g i w =
           (let currentMsg = currentMessage (heap w a);
                fanout = sendMessages g (i_displayName i) currentMsg (members_of g r);
                counts = tally (snd fanout) (0, [], []);
                w1 = update_state a
                       (\<lambda>s. s\<lparr>failedUsers := fst (snd counts),
                               successfulUsers := snd (snd counts)\<rparr>) w
            in case resultEmbed (role_name r) currentMsg (fst counts) (fst (snd counts)) of
                 None \<Rightarrow> (w1, DeferUpdate # fst fanout @ [LogError])
               | Some report \<Rightarrow>
                   (deleteState (i_user i) w1,
                    DeferUpdate # fst fanout @ [EditMessage p report, DeleteState (i_user i)]))"
  using assms
  by (simp add: interactionCreate_def handler_body_def button_handler_def getState_def Let_def
      js_split_no_sep startsWith_def confirm_send_def update_state_def deleteState_def
      case_prod_unfold split: option.splits)

lemma select_role_missing_run:
  assumes "interactionState w (i_user i) = Some a"
    and "previewMessage (heap w a) = Some p"
    and "CHR ''_'' \<notin> set (i_user i)" and "CHR ''_'' \<notin> set rid"
    and "i_kind i = ButtonPress (''select_role_'' @ rid @ ''_'' @ i_user i)"
    and "fetch_role g rid = None"
  shows "interactionCreate supportRole g i w =
           (deleteState (i_user i) w, [EditMessage p RoleNotFound, DeleteState (i_user i)])"
  using assms
  by (simp add: interactionCreate_def handler_body_def button_handler_def getState_def Let_def
      startsWith_def select_role_def js_split_no_sep js_split_append_sep)

lemma edit_run:
  assumes "interactionState w (i_user i) = Some a"
    and "previewMessage (heap w a) = Some p"
    and "CHR ''_'' \<notin> set (i_user i)"
    and "i_kind i = ButtonPress (''edit_message_'' @ i_user i)"
  shows "interactionCreate supportRole g i w =
           (w\<lparr>collectors := collectors w @
                [\<lparr>col_channel = i_channel i, col_author = i_user i, col_state = a\<rparr>]\<rparr>,
            [DeferUpdate, EditMessage p EditingMessage])"
  using assms
  by (simp add: interactionCreate_def handler_body_def button_handler_def getState_def Let_def
      js_split_no_sep startsWith_def edit_message_def)

section \<open>The report and its limits\<close>

lemma length_js_join:
  "length (js_join sep xs) = sum_list (map length xs) + (length xs - 1) * length sep"
  by (induction sep xs rule: js_join.induct) simp_all

lemma length_userLines:
  "length (userLines chunk) = sum_list (map length chunk) + 3 * length chunk - 1"
proof (cases chunk)
  case Nil
  then show ?thesis by (simp add: userLines_def)
next
  case (Cons user rest)
  have "sum_list (map (\<lambda>user. length (''* '' @ user)) chunk) =
          sum_list (map length chunk) + 2 * length chunk"
    by (induction chunk) simp_all
  then have "length (userLines chunk) =
          sum_list (map length chunk) + 2 * length chunk + (length chunk - 1)"
    by (simp add: userLines_def length_js_join o_def)
  with Cons show ?thesis by simp
qed

text \<open>The loop over the chunks throws as soon as the embed would pass 25 fields.\<close>

lemma addFailedFields_overflow:
  "length fs \<le> maxFields \<Longrightarrow> maxFields < length fs + length cs \<Longrightarrow>
     addFailedFields n (enumerate k cs) fs = None"
proof (induction cs arbitrary: k fs)
  case Nil
  then show ?case by simp
next
  case (Cons c cs)
  then show ?case
    by (auto simp: addFields_def split: option.splits)
qed

lemma addFields_first:
  "addFields f [] = (if 1 \<le> length (field_value f) \<and> length (field_value f) \<le> maxFieldValue
                     then Some [f] else None)"
  by (simp add: addFields_def maxFields_def)

text \<open>
  No report is built for an empty message or one of more than 1024 characters, nor for
  more than 600 failed users.
\<close>

lemma resultEmbed_message_refused:
  "currentMsg = [] \<or> maxFieldValue < length currentMsg \<Longrightarrow>
     resultEmbed roleName currentMsg successCount failed = None"
  by (auto simp: resultEmbed_def addFields_first)

lemma chunks_past_600:
  assumes "600 < length failed"
  shows "25 \<le> length (chunkArray failed usersPerField)"
proof -
  have "600 < ceil_div (length failed) 25 * 25"
    using ceil_div_bounds(1) [of 25 "length failed"] assms by simp
  then show ?thesis
    by (simp add: length_chunkArray usersPerField_def)
qed

lemma resultEmbed_users_refused:
  assumes "600 < length failed"
  shows "resultEmbed roleName currentMsg successCount failed = None"
proof (cases "addFields \<lparr>field_name = SentMessage, field_value = currentMsg\<rparr> []")
  case None
  then show ?thesis by (simp add: resultEmbed_def)
next
  case (Some fs)
  then have fs: "length fs = 1"
    by (auto simp: addFields_first split: if_splits)
  have "addFailedFields (length (chunkArray failed usersPerField))
          (enumerate 0 (chunkArray failed usersPerField)) fs = None"
    by (rule addFailedFields_overflow)
      (use fs chunks_past_600 [OF assms] in \<open>simp_all add: maxFields_def\<close>)
  moreover from assms have "failed \<noteq> []"
    by auto
  ultimately show ?thesis
    using Some by (simp add: resultEmbed_def Let_def)
qed

text \<open>
  Where every limit is kept the loop adds one field per chunk, in order: its name numbered
  as \<open>fieldName\<close> says, its value the users of the chunk.
\<close>

lemma addFailedFields_fits:
  "length fs + length cs \<le> maxFields \<Longrightarrow>
   (\<forall>c \<in> set cs. 1 \<le> length (userLines c) \<and> length (userLines c) \<le> maxFieldValue) \<Longrightarrow>
     addFailedFields n (enumerate k cs) fs =
       Some (fs @ map (\<lambda>(index, chunk).
                         \<lparr>field_name = DidNotReceive (fieldName n index),
                          field_value = userLines chunk\<rparr>) (enumerate k cs))"
proof (induction cs arbitrary: k fs)
  case Nil
  then show ?case by simp
next
  case (Cons c cs)
  then show ?case
    by (simp add: addFields_def)
qed

lemma chunk_not_Nil:
  assumes "0 < sz" and "c \<in> set (chunkArray xs sz)"
  shows "c \<noteq> []"
proof -
  from assms(2) obtain i where i: "i < ceil_div (length xs) sz"
    and c: "c = take sz (drop (i * sz) xs)"
    by (auto simp: chunkArray_def)
  from i have "Suc i * sz \<le> ceil_div (length xs) sz * sz"
    by (intro mult_le_mono1) simp
  with ceil_div_bounds(2) [OF assms(1), of "length xs"] have "i * sz < length xs"
    by simp
  with c assms(1) show ?thesis by simp
qed

lemma chunk_subset: "c \<in> set (chunkArray xs sz) \<Longrightarrow> set c \<subseteq> set xs"
  by (auto simp: chunkArray_def dest: in_set_takeD in_set_dropD)

lemma sum_list_length_le:
  "\<forall>u \<in> set c. length u \<le> k \<Longrightarrow> sum_list (map length c) \<le> k * length c"
  by (induction c) auto

lemma userLines_fits:
  assumes "c \<noteq> []" and "length c \<le> 25" and "\<forall>u \<in> set c. length u \<le> 37"
  shows "1 \<le> length (userLines c) \<and> length (userLines c) \<le> maxFieldValue"
proof -
  have "sum_list (map length c) \<le> 37 * length c"
    using assms(3) by (rule sum_list_length_le)
  moreover have "0 < length c"
    using assms(1) by simp
  ultimately show ?thesis
    unfolding length_userLines maxFieldValue_def using assms(2) by linarith
qed

lemma chunks_upto_600:
  assumes "length failed \<le> 600"
  shows "length (chunkArray failed usersPerField) \<le> 24"
proof -
  have "ceil_div (length failed) 25 * 25 < 625"
    using ceil_div_bounds(2) [of 25 "length failed"] assms by simp
  then show ?thesis
    by (simp add: length_chunkArray usersPerField_def)
qed

text \<open>
  Where the report is built. For a message of 1 to 1024 characters and 1 to 600 failed
  users of tags of at most 37 characters, the report has the field of the sent message
  and then one field per chunk of 25 users, in order, numbered when there is more than
  one.
\<close>

lemma resultEmbed_fits:
  assumes "failed \<noteq> []" and "length failed \<le> 600"
    and "1 \<le> length currentMsg" and "length currentMsg \<le> 1024"
    and "\<forall>u \<in> set failed. length u \<le> 37"
  shows "resultEmbed roleName currentMsg successCount failed =
           Some (MessageSent (PartlyDelivered successCount roleName (length failed))
                   (\<lparr>field_name = SentMessage, field_value = currentMsg\<rparr> #
                    map (\<lambda>(index, chunk).
                           \<lparr>field_name =
                              DidNotReceive
                                (fieldName (length (chunkArray failed usersPerField)) index),
                            field_value = userLines chunk\<rparr>)
                      (enumerate 0 (chunkArray failed usersPerField))))"
proof -
  let ?cs = "chunkArray failed usersPerField"
  let ?sent = "\<lparr>field_name = SentMessage, field_value = currentMsg\<rparr>"
  have first: "addFields ?sent [] = Some [?sent]"
    using assms(3,4) by (simp add: addFields_first maxFieldValue_def)
  have room: "length [?sent] + length ?cs \<le> maxFields"
    using chunks_upto_600 [OF assms(2)] by (simp add: maxFields_def)
  have fit: "\<forall>c \<in> set ?cs. 1 \<le> length (userLines c) \<and> length (userLines c) \<le> maxFieldValue"
  proof
    fix c assume c: "c \<in> set ?cs"
    have "c \<noteq> []"
      using c by (intro chunk_not_Nil [of usersPerField]) (simp_all add: usersPerField_def)
    moreover have "length c \<le> 25"
      using chunk_length_le [OF c] by (simp add: usersPerField_def)
    moreover have "\<forall>u \<in> set c. length u \<le> 37"
      using chunk_subset [OF c] assms(5) by auto
    ultimately show "1 \<le> length (userLines c) \<and> length (userLines c) \<le> maxFieldValue"
      by (rule userLines_fits)
  qed
  from addFailedFields_fits [OF room fit, of "length ?cs" 0] first assms(1) show ?thesis
    by (simp add: resultEmbed_def Let_def)
qed

lemma upt_3: "[0 ..< 3] = [0, 1, 2]"
  by (simp add: upt_rec)

lemma show_nat_small:
  "show_nat (Suc 0) = ''1''" "show_nat (Suc (Suc 0)) = ''2''" "show_nat 3 = ''3''"
  by (simp_all add: show_nat.simps)

text \<open>Sixty failed users: three fields, of 25, 25 and 10 users.\<close>

lemma sixty_failed_fields:
  assumes "length failed = 60"
  shows "map fst (enumerate 0 (chunkArray failed usersPerField)) = [0, 1, 2]"
    and "map (fieldName (length (chunkArray failed usersPerField))) [0, 1, 2] =
           ['' (1/3)'', '' (2/3)'', '' (3/3)'']"
    and "map length (chunkArray failed usersPerField) = [25, 25, 10]"
proof -
  have n: "length (chunkArray failed usersPerField) = 3"
    using assms by (simp add: length_chunkArray usersPerField_def ceil_div_def)
  show "map fst (enumerate 0 (chunkArray failed usersPerField)) = [0, 1, 2]"
    by (simp add: n upt_3)
  show "map (fieldName (length (chunkArray failed usersPerField))) [0, 1, 2] =
           ['' (1/3)'', '' (2/3)'', '' (3/3)'']"
    by (simp add: n fieldName_def show_nat_small)
  show "map length (chunkArray failed usersPerField) = [25, 25, 10]"
    using assms by (simp add: chunkArray_def usersPerField_def ceil_div_def upt_3)
qed

section \<open>The example worlds\<close>

lemma selecting_world_facts:
  "interactionState selecting_world ''7'' = Some 0"
  "heap selecting_world 0 =
     \<lparr>currentMessage = ''hello'', previewMessage = Some 40, selectedRole = None,
      failedUsers = [], successfulUsers = []\<rparr>"
  "collectors selecting_world = []"
  by (simp_all add: run_defs)

lemma preview_world_facts:
  "interactionState preview_world ''7'' = Some 0"
  "heap preview_world 0 =
     \<lparr>currentMessage = ''hello'', previewMessage = Some 40, selectedRole = Some staff,
      failedUsers = [], successfulUsers = []\<rparr>"
  "collectors preview_world = []"
  by (simp_all add: run_defs)

lemma editing_world_facts:
  "interactionState editing_world ''7'' = Some 0"
  "heap editing_world 0 =
     \<lparr>currentMessage = ''hello'', previewMessage = Some 40, selectedRole = Some staff,
      failedUsers = [], successfulUsers = []\<rparr>"
  "collectors editing_world = [\<lparr>col_channel = 10, col_author = ''7'', col_state = 0\<rparr>]"
  by (simp_all add: run_defs)

lemma long_preview_world_facts:
  "interactionState long_preview_world ''7'' = Some 0"
  "heap long_preview_world 0 =
     \<lparr>currentMessage = long_draft, previewMessage = Some 40, selectedRole = Some staff,
      failedUsers = [], successfulUsers = []\<rparr>"
  by (simp_all add: run_defs)

lemma quiet_preview_world_facts:
  "interactionState quiet_preview_world ''7'' = Some 0"
  "heap quiet_preview_world 0 =
     \<lparr>currentMessage = ''hello'', previewMessage = Some 40, selectedRole = Some quiet,
      failedUsers = [], successfulUsers = []\<rparr>"
  by (simp_all add: run_defs)


section \<open>The fan-out\<close>

lemma sendMessages_sends:
  "fst (sendMessages g sender msg ms) =
     map (\<lambda>m. SendDM (member_id m) msg sender) (filter (\<lambda>m. \<not> member_bot m) ms)"
  by (induction ms) (auto simp: send_to_def split: prod.splits)

lemma sendMessages_results:
  "snd (sendMessages g sender msg ms) =
     map (\<lambda>m. (m, \<not> member_bot m \<and> member_id m \<notin> set (dm_closed g))) ms"
  by (induction ms) (auto simp: send_to_def split: prod.splits)

lemma tally_acc:
  "tally rs (n, f, s) =
     (n + length (filter snd rs),
      f @ map (\<lambda>r. member_tag (fst r)) (filter (\<lambda>r. \<not> snd r) rs),
      s @ map (\<lambda>r. member_tag (fst r)) (filter snd rs))"
  by (induction rs arbitrary: n f s) auto

text \<open>
  Claim C1, as the code has it. In the fan-out over a role's members no send is
  attempted for a bot, and every other member gets exactly one send, in member order. A
  member whose send succeeds is tallied in \<^verbatim>\<open>successfulUsers\<close>; every other member is
  tallied in \<^verbatim>\<open>failedUsers\<close>: the members whose send raised and also the bots, which
  the map step returns with \<^verbatim>\<open>success: false\<close>. A failed send aborts nothing: the
  tally covers every member.
\<close>

theorem C1_bots_counted_failed:
  "fst (sendMessages g sender msg ms) =
     map (\<lambda>m. SendDM (member_id m) msg sender) (filter (\<lambda>m. \<not> member_bot m) ms)
   \<and> tally (snd (sendMessages g sender msg ms)) (0, [], []) =
       (length (filter (\<lambda>m. \<not> member_bot m \<and> member_id m \<notin> set (dm_closed g)) ms),
        map member_tag (filter (\<lambda>m. member_bot m \<or> member_id m \<in> set (dm_closed g)) ms),
        map member_tag (filter (\<lambda>m. \<not> member_bot m \<and> member_id m \<notin> set (dm_closed g)) ms))"
  by (simp add: sendMessages_sends sendMessages_results tally_acc filter_map o_def)

text \<open>
  The members \<open>m1\<close> (a bot), \<open>m2\<close> (accepts the message) and \<open>m3\<close> (refuses it): two
  sends, one success, and both \<open>m1\<close> and \<open>m3\<close> among the failed.
\<close>

theorem C1_bots_counted_failed_witness:
  "fst (sendMessages ex_guild ''op'' ''hello'' [m1, m2, m3]) =
     [SendDM ''2'' ''hello'' ''op'', SendDM ''3'' ''hello'' ''op'']
   \<and> tally (snd (sendMessages ex_guild ''op'' ''hello'' [m1, m2, m3])) (0, [], []) =
       (1, [''m1'', ''m3''], [''m2''])"
  using C1_bots_counted_failed [of ex_guild "''op''" "''hello''" "[m1, m2, m3]"]
  by simp

text \<open>
  Claim C1 as stated has \<^verbatim>\<open>failedRecipients = [m3]\<close> for these members, the bot in
  neither list. The code lists the bot \<open>m1\<close> among the failed.
\<close>

theorem C1_counterexample:
  "fst (snd (tally (snd (sendMessages ex_guild ''op'' ''hello'' [m1, m2, m3])) (0, [], [])))
     \<noteq> [''m3'']
   \<and> ''m1'' \<in> set (fst (snd (tally (snd (sendMessages ex_guild ''op'' ''hello'' [m1, m2, m3]))
                                (0, [], []))))"
  by (simp add: send_to_def)

section \<open>Starting and cancelling\<close>

text \<open>
  Claim C2. The store maps an operator to at most one session, and \<^verbatim>\<open>/message\<close> from an
  operator who has a session is answered with the notice of an active interaction and
  nothing else: the store, the session and the collectors are as before.
\<close>

theorem C2_second_message_rejected:
  assumes "interactionState w (i_user i) = Some a"
    and "i_kind i = Command ''message'' content"
  shows "interactionCreate supportRole g i w = (w, [Reply ActiveInteraction])"
  using assms by (rule message_active_run)

text \<open>
  The operator, in the middle of a workflow, sends \<^verbatim>\<open>/message\<close> again.
\<close>

theorem C2_second_message_rejected_witness:
  "interactionState preview_world ''7'' = Some 0
   \<and> interactionCreate ''900'' ex_guild (by_operator 44 (Command ''message'' ''again''))
       preview_world = (preview_world, [Reply ActiveInteraction])"
proof -
  have h: "interactionState preview_world (i_user (by_operator 44 (Command ''message'' ''again'')))
             = Some 0"
    using preview_world_facts(1) by simp
  have k: "i_kind (by_operator 44 (Command ''message'' ''again'')) = Command ''message'' ''again''"
    by simp
  show ?thesis
    using C2_second_message_rejected [OF h k, of "''900''" ex_guild] preview_world_facts(1)
    by simp
qed

text \<open>
  Claim C5. An operator with the support role and no session sends \<^verbatim>\<open>/message\<close> in a
  guild where no role has two members: the handler answers with the notice that no role
  was found, and when it ends the store is what it was, with no session for the operator.
  (The handler stores a session before it looks at the roles and deletes it in this
  branch.)
\<close>

theorem C5_no_eligible_role:
  assumes "interactionState w (i_user i) = None"
    and "supportRole \<in> set (i_roles i)"
    and "i_kind i = Command ''message'' content"
    and "\<forall>(r, ms) \<in> set (guild_roles g). length ms < 2"
  shows "snd (interactionCreate supportRole g i w) =
           [SetState (i_user i), Reply NoRolesFound, DeleteState (i_user i)]
         \<and> interactionState (fst (interactionCreate supportRole g i w)) = interactionState w
         \<and> interactionState (fst (interactionCreate supportRole g i w)) (i_user i) = None
         \<and> collectors (fst (interactionCreate supportRole g i w)) = collectors w"
proof -
  have "filter (\<lambda>(r, ms). length ms \<ge> 2) (guild_roles g) = []"
    using assms(4) by (auto simp: filter_empty_conv)
  from no_roles_run [OF assms(1-3) this] assms(1) show ?thesis
    by (simp add: setState_def deleteState_def fun_upd_idem)
qed

text \<open>
  A guild whose only role has one member.
\<close>

theorem C5_no_eligible_role_witness:
  "interactionState empty_world ''7'' = None
   \<and> ''900'' \<in> set [''900'']
   \<and> list_all (\<lambda>(r, ms). length ms < 2) (guild_roles small_guild)
   \<and> snd (interactionCreate ''900'' small_guild (by_operator 40 (Command ''message'' ''hello''))
            empty_world) = [SetState ''7'', Reply NoRolesFound, DeleteState ''7'']
   \<and> interactionState
         (fst (interactionCreate ''900'' small_guild
                 (by_operator 40 (Command ''message'' ''hello'')) empty_world)) ''7'' = None"
  using C5_no_eligible_role [of empty_world "by_operator 40 (Command ''message'' ''hello'')"
      "''900''" "''hello''" small_guild]
  by simp

text \<open>
  Claim C6. A button whose custom id ends in operator \<open>A\<close>'s id, pressed by any other
  user, does nothing: no reply, no edit, and the world is unchanged.
\<close>

theorem C6_foreign_press_ignored:
  assumes "CHR ''_'' \<notin> set A" and "i_user i \<noteq> A"
    and "i_kind i = ButtonPress (pre @ ''_'' @ A)"
  shows "interactionCreate supportRole g i w = (w, [])"
  using assms by (rule foreign_button_run)

text \<open>
  Another user presses the operator's role button and the operator's confirm button.
\<close>

theorem C6_foreign_press_ignored_witness:
  "CHR ''_'' \<notin> set ''7'' \<and> ''8'' \<noteq> ''7''
   \<and> interactionCreate ''900'' ex_guild (by_stranger 45 (ButtonPress ''select_role_500_7''))
       selecting_world = (selecting_world, [])
   \<and> interactionCreate ''900'' ex_guild (by_stranger 46 (ButtonPress ''confirm_send_7''))
       preview_world = (preview_world, [])"
  using C6_foreign_press_ignored [of "''7''" "by_stranger 45 (ButtonPress ''select_role_500_7'')"
      "''select_role_500''" "''900''" ex_guild selecting_world]
    C6_foreign_press_ignored [of "''7''" "by_stranger 46 (ButtonPress ''confirm_send_7'')"
      "''confirm_send''" "''900''" ex_guild preview_world]
  by simp

lemma deleteState_facts:
  "interactionState (deleteState u w) = (interactionState w)(u := None)"
  "heap (deleteState u w) = heap w"
  "collectors (deleteState u w) = collectors w"
  "next_addr (deleteState u w) = next_addr w"
  by (simp_all add: deleteState_def)

lemma update_state_facts:
  "interactionState (update_state a f w) = interactionState w"
  "heap (update_state a f w) = (heap w)(a := f (heap w a))"
  "collectors (update_state a f w) = collectors w"
  "next_addr (update_state a f w) = next_addr w"
  by (simp_all add: update_state_def)

text \<open>
  Claim C9. After a first cancel, by the \<^verbatim>\<open>/cancel\<close> command or the cancel button, the
  operator has no session; a second cancel, by either path, throws nothing, renders no
  cancellation notice and leaves the world as it is: the command is answered with the
  notice that no interaction is active, the button with the notice that the interaction
  was not found.
\<close>

theorem C9_second_cancel_is_quiet:
  assumes "interactionState w u = Some a" and "CHR ''_'' \<notin> set u"
    and "i_user i1 = u" and "i_user i2 = u"
    and "supportRole \<in> set (i_roles i1)" and "supportRole \<in> set (i_roles i2)"
    and "i_kind i1 = Command ''cancel'' c1 \<or> i_kind i1 = ButtonPress (''cancel_send_'' @ u)"
    and "i_kind i2 = Command ''cancel'' c2 \<or> i_kind i2 = ButtonPress (''cancel_send_'' @ u)"
  shows "(let w1 = fst (interactionCreate supportRole g1 i1 w) in
            interactionState w1 u = None
          \<and> interactionCreate supportRole g2 i2 w1 =
              (w1, [Reply (if i_kind i2 = Command ''cancel'' c2 then NoActiveInteraction
                           else InteractionNotFound)]))"
proof -
  let ?w1 = "fst (interactionCreate supportRole g1 i1 w)"
  have first: "interactionState ?w1 u = None"
    using assms(7)
  proof
    assume "i_kind i1 = Command ''cancel'' c1"
    with cancel_command_run [of w i1 a supportRole c1 g1] assms(1,3,5) show ?thesis
      by (simp add: deleteState_facts)
  next
    assume "i_kind i1 = ButtonPress (''cancel_send_'' @ u)"
    with cancel_button_run [of w i1 a supportRole g1] assms(1,2,3) show ?thesis
      by (simp add: deleteState_facts)
  qed
  have second: "interactionCreate supportRole g2 i2 ?w1 =
      (?w1, [Reply (if i_kind i2 = Command ''cancel'' c2 then NoActiveInteraction
                    else InteractionNotFound)])"
    using assms(8)
  proof
    assume k: "i_kind i2 = Command ''cancel'' c2"
    with cancel_command_idle [of ?w1 i2 supportRole c2 g2] first assms(4,6) show ?thesis
      by simp
  next
    assume k: "i_kind i2 = ButtonPress (''cancel_send_'' @ u)"
    with own_button_idle [of ?w1 i2 "''cancel_send''" supportRole g2] first assms(2,4)
    show ?thesis by simp
  qed
  from first second show ?thesis by (simp add: Let_def)
qed

text \<open>
  The operator cancels by command, then presses the cancel button, or cancels by command
  again.
\<close>

theorem C9_second_cancel_is_quiet_witness:
  "interactionState preview_world ''7'' = Some 0 \<and> CHR ''_'' \<notin> set ''7''
   \<and> interactionState
        (fst (interactionCreate ''900'' ex_guild (by_operator 50 (Command ''cancel'' []))
                preview_world)) ''7'' = None
   \<and> snd (interactionCreate ''900'' ex_guild (by_operator 51 (ButtonPress ''cancel_send_7''))
          (fst (interactionCreate ''900'' ex_guild (by_operator 50 (Command ''cancel'' []))
                  preview_world))) = [Reply InteractionNotFound]
   \<and> snd (interactionCreate ''900'' ex_guild (by_operator 52 (Command ''cancel'' []))
          (fst (interactionCreate ''900'' ex_guild (by_operator 50 (Command ''cancel'' []))
                  preview_world))) = [Reply NoActiveInteraction]"
  using C9_second_cancel_is_quiet [of preview_world "''7''" 0
      "by_operator 50 (Command ''cancel'' [])" "by_operator 51 (ButtonPress ''cancel_send_7'')"
      "''900''" "[]" "[]" ex_guild ex_guild]
    C9_second_cancel_is_quiet [of preview_world "''7''" 0
      "by_operator 50 (Command ''cancel'' [])" "by_operator 52 (Command ''cancel'' [])"
      "''900''" "[]" "[]" ex_guild ex_guild]
    preview_world_facts(1)
  by (simp add: Let_def)

text \<open>
  Claim C10. When the operator presses a role button of the session's preview and
  \<^verbatim>\<open>guild.roles.fetch\<close> no longer resolves the role, the preview message is edited to
  the notice that the role was not found, the session is deleted from the store, and no
  state object is written, so \<^verbatim>\<open>selectedRole\<close> is never set.
\<close>

theorem C10_unresolved_role_aborts:
  assumes "interactionState w u = Some a"
    and "previewMessage (heap w a) = Some p"
    and "CHR ''_'' \<notin> set u" and "CHR ''_'' \<notin> set rid"
    and "i_user i = u"
    and "i_kind i = ButtonPress (''select_role_'' @ rid @ ''_'' @ u)"
    and "fetch_role g rid = None"
  shows "interactionCreate supportRole g i w =
           (deleteState u w, [EditMessage p RoleNotFound, DeleteState u])
         \<and> interactionState (deleteState u w) u = None
         \<and> heap (deleteState u w) = heap w"
  using select_role_missing_run [of w i a p rid g supportRole] assms
  by (simp add: deleteState_facts)

text \<open>
  The role \<open>500\<close> is gone from the guild when its button is pressed.
\<close>

theorem C10_unresolved_role_aborts_witness:
  "interactionState selecting_world ''7'' = Some 0
   \<and> previewMessage (heap selecting_world 0) = Some 40
   \<and> fetch_role small_guild ''500'' = None
   \<and> snd (interactionCreate ''900'' small_guild (by_operator 41 (ButtonPress ''select_role_500_7''))
            selecting_world) = [EditMessage 40 RoleNotFound, DeleteState ''7'']
   \<and> interactionState
        (fst (interactionCreate ''900'' small_guild
                (by_operator 41 (ButtonPress ''select_role_500_7'')) selecting_world)) ''7'' = None
   \<and> selectedRole
        (heap (fst (interactionCreate ''900'' small_guild
                      (by_operator 41 (ButtonPress ''select_role_500_7'')) selecting_world)) 0)
       = None"
  using C10_unresolved_role_aborts [where w = selecting_world and u = "''7''" and a = 0
      and p = 40 and rid = "''500''" and i = "by_operator 41 (ButtonPress ''select_role_500_7'')"
      and g = small_guild and supportRole = "''900''"]
    selecting_world_facts
  by (simp add: fetch_role_def deleteState_facts)

section \<open>Confirming\<close>

text \<open>
  Claim C8, where the code departs from it. The operator's draft has 1025 characters. On
  confirm the direct messages go out; then \<^verbatim>\<open>addFields\<close> refuses the draft as the
  value of the report's first field (line 507), the handler leaves through the
  \<^verbatim>\<open>catch\<close>, no report is shown and \<^verbatim>\<open>deleteState\<close> (line 547) is not reached: the
  session stays in the store, and the operator's next \<^verbatim>\<open>/message\<close> is answered with the
  notice of an active interaction.
\<close>

theorem C8_long_draft_keeps_session:
  "snd (interactionCreate ''900'' ex_guild (by_operator 43 (ButtonPress ''confirm_send_7''))
          long_preview_world) =
     [DeferUpdate, SendDM ''2'' long_draft ''op'', SendDM ''3'' long_draft ''op'', LogError]
   \<and> interactionState
        (fst (interactionCreate ''900'' ex_guild (by_operator 43 (ButtonPress ''confirm_send_7''))
                long_preview_world)) ''7'' = Some 0
   \<and> interactionCreate ''900'' ex_guild (by_operator 44 (Command ''message'' ''next''))
        (fst (interactionCreate ''900'' ex_guild (by_operator 43 (ButtonPress ''confirm_send_7''))
                long_preview_world)) =
       (fst (interactionCreate ''900'' ex_guild (by_operator 43 (ButtonPress ''confirm_send_7''))
               long_preview_world), [Reply ActiveInteraction])"
proof -
  let ?i = "by_operator 43 (ButtonPress ''confirm_send_7'')"
  have none: "resultEmbed ''staff'' long_draft c failed = None" for c failed
    by (rule resultEmbed_message_refused) (simp add: maxFieldValue_def)
  have run: "interactionCreate ''900'' ex_guild ?i long_preview_world =
      (update_state 0 (\<lambda>s. s\<lparr>failedUsers := [''m1'', ''m3''], successfulUsers := [''m2'']\<rparr>)
         long_preview_world,
       [DeferUpdate, SendDM ''2'' long_draft ''op'', SendDM ''3'' long_draft ''op'', LogError])"
    using confirm_role_run [where w = long_preview_world and i = ?i and a = 0 and r = staff
        and p = 40 and g = ex_guild and supportRole = "''900''"]
      long_preview_world_facts
    by (simp add: Let_def none members_of_def send_to_def)
  have kept: "interactionState (fst (interactionCreate ''900'' ex_guild ?i long_preview_world)) ''7''
      = Some 0"
    by (simp add: run update_state_facts long_preview_world_facts)
  have again: "interactionCreate ''900'' ex_guild (by_operator 44 (Command ''message'' ''next''))
      (fst (interactionCreate ''900'' ex_guild ?i long_preview_world)) =
      (fst (interactionCreate ''900'' ex_guild ?i long_preview_world), [Reply ActiveInteraction])"
    by (rule message_active_run [where a = 0]) (simp_all add: kept)
  from run kept again show ?thesis
    by simp
qed

lemma quiet_fanout:
  "fst (sendMessages quiet_guild sender msg (map quiet_member [0 ..< 601])) =
     map (\<lambda>n. SendDM (show_nat n) msg sender) [0 ..< 601]"
  "snd (sendMessages quiet_guild sender msg (map quiet_member [0 ..< 601])) =
     map (\<lambda>n. (quiet_member n, False)) [0 ..< 601]"
  by (simp_all add: sendMessages_sends sendMessages_results filter_map o_def)

lemma quiet_tally:
  "tally (map (\<lambda>n. (quiet_member n, False)) [0 ..< 601]) (0, [], []) =
     (0, map (\<lambda>n. ''user'' @ show_nat n) [0 ..< 601], [])"
  by (simp add: tally_acc o_def)

text \<open>
  Claim C4, where the code departs from it. All 601 members of the role refuse the direct
  message. \<^verbatim>\<open>chunkArray\<close> gives 25 chunks; the embed already has the field of the sent
  message, so the \<^verbatim>\<open>addFields\<close> of the 25th chunk would make its 26th field and
  throws (lines 525 to 535): no report is built, the preview is not edited, and the
  session stays in the store.
\<close>

theorem C4_no_report_past_600:
  "length (map (\<lambda>n. ''user'' @ show_nat n) [0 ..< 601]) = 601
   \<and> length (chunkArray (map (\<lambda>n. ''user'' @ show_nat n) [0 ..< 601]) usersPerField) = 25
   \<and> resultEmbed ''quiet'' ''hello'' 0 (map (\<lambda>n. ''user'' @ show_nat n) [0 ..< 601]) = None
   \<and> snd (interactionCreate ''900'' quiet_guild (by_operator 43 (ButtonPress ''confirm_send_7''))
            quiet_preview_world) =
       DeferUpdate # map (\<lambda>n. SendDM (show_nat n) ''hello'' ''op'') [0 ..< 601] @ [LogError]
   \<and> interactionState
        (fst (interactionCreate ''900'' quiet_guild (by_operator 43 (ButtonPress ''confirm_send_7''))
                quiet_preview_world)) ''7'' = Some 0"
proof -
  let ?i = "by_operator 43 (ButtonPress ''confirm_send_7'')"
  let ?failed = "map (\<lambda>n. ''user'' @ show_nat n) [0 ..< 601]"
  have chunks: "length (chunkArray ?failed usersPerField) = 25"
    by (simp add: length_chunkArray usersPerField_def ceil_div_def)
  have none: "resultEmbed ''quiet'' ''hello'' 0 ?failed = None"
    by (rule resultEmbed_users_refused) simp
  have members: "members_of quiet_guild quiet = map quiet_member [0 ..< 601]"
    by (simp add: members_of_def)
  have f1: "interactionState quiet_preview_world (i_user ?i) = Some 0"
    and f2: "selectedRole (heap quiet_preview_world 0) = Some quiet"
    and f3: "previewMessage (heap quiet_preview_world 0) = Some 40"
    and f4: "CHR ''_'' \<notin> set (i_user ?i)"
    and f5: "i_kind ?i = ButtonPress (''confirm_send_'' @ i_user ?i)"
    and cm: "currentMessage (heap quiet_preview_world 0) = ''hello''"
    using quiet_preview_world_facts by simp_all
  have dn: "i_displayName ?i = ''op''" and rn: "role_name quiet = ''quiet''"
    by simp_all
  have run: "interactionCreate ''900'' quiet_guild ?i quiet_preview_world =
      (update_state 0 (\<lambda>s. s\<lparr>failedUsers := ?failed, successfulUsers := []\<rparr>)
         quiet_preview_world,
       DeferUpdate # map (\<lambda>n. SendDM (show_nat n) ''hello'' ''op'') [0 ..< 601] @ [LogError])"
    unfolding confirm_role_run [where g = quiet_guild and supportRole = "''900''",
        OF f1 f2 f3 f4 f5] Let_def cm dn rn members quiet_fanout quiet_tally
    by (simp only: fst_conv snd_conv none option.case)
  have kept: "interactionState
      (fst (interactionCreate ''900'' quiet_guild ?i quiet_preview_world)) ''7'' = Some 0"
    unfolding run fst_conv update_state_facts by (rule quiet_preview_world_facts)
  have sent: "snd (interactionCreate ''900'' quiet_guild ?i quiet_preview_world) =
      DeferUpdate # map (\<lambda>n. SendDM (show_nat n) ''hello'' ''op'') [0 ..< 601] @ [LogError]"
    unfolding run snd_conv ..
  have len: "length ?failed = 601"
    by simp
  from len chunks none sent kept show ?thesis
    by (intro conjI)
qed

section \<open>The collector\<close>

lemma messageCreate_quiet:
  assumes "\<forall>c \<in> set (collectors w). \<not> col_matches msg c"
  shows "messageCreate g msg w = (w, [])"
proof -
  have "filter (col_matches msg) (collectors w) = []"
    using assms by (simp add: filter_empty_conv)
  moreover have "filter (\<lambda>c. \<not> col_matches msg c) (collectors w) = collectors w"
    using assms by (simp add: filter_id_conv)
  ultimately show ?thesis
    by (simp add: messageCreate_def)
qed

lemma messageCreate_last:
  assumes "collectors w = cs @ [c]"
    and "\<forall>c' \<in> set cs. \<not> col_matches msg c'"
    and "col_matches msg c"
  shows "messageCreate g msg w = collect g msg c (w\<lparr>collectors := cs\<rparr>)"
proof -
  have "filter (col_matches msg) cs = []"
    using assms(2) by (simp add: filter_empty_conv)
  moreover have "filter (\<lambda>c. \<not> col_matches msg c) cs = cs"
    using assms(2) by (simp add: filter_id_conv)
  ultimately show ?thesis
    using assms(1,3) by (simp add: messageCreate_def case_prod_unfold)
qed

lemma collect_run:
  assumes "selectedRole (heap w (col_state c)) = Some r"
    and "previewMessage (heap w (col_state c)) = Some p"
  shows "collect g msg c w =
           (update_state (col_state c) (\<lambda>s. s\<lparr>currentMessage := msg_content msg\<rparr>) w,
            [DeleteMessage (msg_id msg),
             EditMessage p
               (UpdatedPreview (msg_content msg) (length (members_of g r))
                  (previewButtons (col_author c) (length (members_of g r))))])"
  using assms by (simp add: collect_def update_state_def Let_def)

text \<open>
  The edit step where no other pending collector accepts the operator's message: the
  prompt is shown and one collector is added; the operator's next message in the channel
  becomes \<^verbatim>\<open>currentMessage\<close>, its deletion and the new preview with the three buttons
  are issued, and the collector is gone, so the same message sent again is not collected.
\<close>

lemma edit_then_message_run:
  assumes "interactionState w u = Some a"
    and "selectedRole (heap w a) = Some r"
    and "previewMessage (heap w a) = Some p"
    and "CHR ''_'' \<notin> set u" and "i_user i = u"
    and "i_kind i = ButtonPress (''edit_message_'' @ u)"
    and "msg_author m = u" and "msg_channel m = i_channel i"
    and "\<forall>c \<in> set (collectors w). \<not> col_matches m c"
  shows "(let w1 = fst (interactionCreate supportRole g i w);
              es1 = snd (interactionCreate supportRole g i w);
              w2 = fst (messageCreate g' m w1);
              es2 = snd (messageCreate g' m w1);
              n = length (members_of g' r)
          in es1 = [DeferUpdate, EditMessage p EditingMessage]
           \<and> collectors w1 =
               collectors w @ [\<lparr>col_channel = i_channel i, col_author = u, col_state = a\<rparr>]
           \<and> es2 = [DeleteMessage (msg_id m),
                     EditMessage p (UpdatedPreview (msg_content m) n (previewButtons u n))]
           \<and> map customId (previewButtons u n) =
               [''confirm_send_'' @ u, ''edit_message_'' @ u, ''cancel_send_'' @ u]
           \<and> interactionState w2 u = Some a
           \<and> heap w2 = (heap w)(a := (heap w a)\<lparr>currentMessage := msg_content m\<rparr>)
           \<and> collectors w2 = collectors w
           \<and> messageCreate g'' m w2 = (w2, [])
           \<and> ((msg_author m' \<noteq> u \<or> msg_channel m' \<noteq> i_channel i)
                \<and> list_all (\<lambda>c. \<not> col_matches m' c) (collectors w)
               \<longrightarrow> messageCreate g'' m' w1 = (w1, [])))"
proof -
  let ?c = "\<lparr>col_channel = i_channel i, col_author = u, col_state = a\<rparr>"
  let ?w1 = "w\<lparr>collectors := collectors w @ [?c]\<rparr>"
  let ?w2 = "update_state a (\<lambda>s. s\<lparr>currentMessage := msg_content m\<rparr>) (?w1\<lparr>collectors := collectors w\<rparr>)"
  have run1: "interactionCreate supportRole g i w = (?w1, [DeferUpdate, EditMessage p EditingMessage])"
    using edit_run [of w i a p supportRole g] assms(1,3-6) by simp
  have hit: "col_matches m ?c"
    using assms(7,8) by (simp add: col_matches_def)
  have "messageCreate g' m ?w1 = collect g' m ?c (?w1\<lparr>collectors := collectors w\<rparr>)"
    by (rule messageCreate_last [OF _ assms(9) hit]) simp
  also have "\<dots> = (?w2,
       [DeleteMessage (msg_id m),
        EditMessage p
          (UpdatedPreview (msg_content m) (length (members_of g' r))
             (previewButtons u (length (members_of g' r))))])"
    using collect_run [of "?w1\<lparr>collectors := collectors w\<rparr>" ?c r p g' m] assms(2,3) by simp
  finally have run2: "messageCreate g' m ?w1 = (?w2,
       [DeleteMessage (msg_id m),
        EditMessage p
          (UpdatedPreview (msg_content m) (length (members_of g' r))
             (previewButtons u (length (members_of g' r))))])" .
  have quiet: "messageCreate g'' m ?w2 = (?w2, [])"
    by (rule messageCreate_quiet) (use assms(9) in \<open>simp add: update_state_facts\<close>)
  have others: "messageCreate g'' m' ?w1 = (?w1, [])"
    if "msg_author m' \<noteq> u \<or> msg_channel m' \<noteq> i_channel i"
      and "list_all (\<lambda>c. \<not> col_matches m' c) (collectors w)"
    by (rule messageCreate_quiet) (use that in \<open>auto simp: col_matches_def list_all_iff\<close>)
  show ?thesis
    using run1 run2 quiet others assms(1)
    by (simp add: Let_def update_state_facts previewButtons_def)
qed

lemmas collector_defs =
  messageCreate_def collect_def col_matches_def previewButtons_def show_nat.simps

text \<open>
  Claim C3, where the code departs from it. The operator cancels in the editing stage, by
  \<^verbatim>\<open>/cancel\<close> or by the cancel button. The session is gone from the store, but the
  collector of the edit step is still pending; the operator's next message in the
  channel, here sent before the deletion of the preview that the cancel scheduled, is
  collected: its deletion is issued, and so is an edit of the old preview to a new preview
  with the three buttons.
\<close>

theorem C3_collector_survives_cancel:
  "snd (interactionCreate ''900'' ex_guild (by_operator 43 (Command ''cancel'' [])) editing_world) =
     [EditMessage 40 ManuallyCancelled, ScheduleDelete 40 15000, DeleteState ''7'', DeferReply,
      EditReply InteractionCancelled, ScheduleDelete 43 15000]
   \<and> collectors
     (fst (interactionCreate ''900'' ex_guild (by_operator 43 (Command ''cancel'' []))
             editing_world)) = [\<lparr>col_channel = 10, col_author = ''7'', col_state = 0\<rparr>]
   \<and> interactionState
        (fst (interactionCreate ''900'' ex_guild (by_operator 43 (Command ''cancel'' []))
                editing_world)) ''7'' = None
   \<and> snd (messageCreate ex_guild
            \<lparr>msg_id = 77, msg_author = ''7'', msg_channel = 10, msg_content = ''late''\<rparr>
            (fst (interactionCreate ''900'' ex_guild (by_operator 43 (Command ''cancel'' []))
                    editing_world))) =
       [DeleteMessage 77,
        EditMessage 40
          (UpdatedPreview ''late'' 3
             [\<lparr>customId = ''confirm_send_7'', button_label = ''Confirm Send (3 members)''\<rparr>,
              \<lparr>customId = ''edit_message_7'', button_label = ''Edit Message''\<rparr>,
              \<lparr>customId = ''cancel_send_7'', button_label = ''Cancel''\<rparr>])]
   \<and> collectors
        (fst (interactionCreate ''900'' ex_guild (by_operator 44 (ButtonPress ''cancel_send_7''))
                editing_world)) = [\<lparr>col_channel = 10, col_author = ''7'', col_state = 0\<rparr>]
   \<and> snd (messageCreate ex_guild
            \<lparr>msg_id = 77, msg_author = ''7'', msg_channel = 10, msg_content = ''late''\<rparr>
            (fst (interactionCreate ''900'' ex_guild (by_operator 44 (ButtonPress ''cancel_send_7''))
                    editing_world))) =
       [DeleteMessage 77,
        EditMessage 40
          (UpdatedPreview ''late'' 3
             [\<lparr>customId = ''confirm_send_7'', button_label = ''Confirm Send (3 members)''\<rparr>,
              \<lparr>customId = ''edit_message_7'', button_label = ''Edit Message''\<rparr>,
              \<lparr>customId = ''cancel_send_7'', button_label = ''Cancel''\<rparr>])]"
  by (simp add: run_defs collector_defs)


end
